theory Spec2Isabelle
  imports Complex_Main
begin

section \<open>The request layer: JSON values and Flask requests\<close>

text \<open>
  Both servers read \<^verbatim>\<open>request.json\<close>, look two keys up with \<^verbatim>\<open>dict.get\<close> and branch
  on \<^verbatim>\<open>mode == 'quantum'\<close> and on the truth value of \<^verbatim>\<open>attack\<close>. A JSON value is what
  Python's parser hands back: \<^verbatim>\<open>None\<close>, a bool, a number, a string, a list or a dict.
  Numbers are kept as rationals; \<open>JNonFinite\<close> stands for the literals \<^verbatim>\<open>NaN\<close>,
  \<^verbatim>\<open>Infinity\<close> and \<^verbatim>\<open>-Infinity\<close>, which the parser accepts as floats. A dict is an
  association list with one binding per key.
\<close>

datatype json =
    JNull
  | JBool bool
  | JNum rat
  | JNonFinite
  | JStr string
  | JArr "json list"
  | JObj "(string \<times> json) list"

text \<open>Python's truth value of a parsed JSON value, as \<^verbatim>\<open>if is_under_attack:\<close> takes it.\<close>

fun truthy :: "json \<Rightarrow> bool" where
  "truthy JNull = False"
| "truthy (JBool b) = b"
| "truthy (JNum q) = (q \<noteq> 0)"
| "truthy JNonFinite = True"
| "truthy (JStr s) = (s \<noteq> [])"
| "truthy (JArr xs) = (xs \<noteq> [])"
| "truthy (JObj kvs) = (kvs \<noteq> [])"

text \<open>\<^verbatim>\<open>d.get(key, default)\<close> on a dict.\<close>

definition dict_get :: "(string \<times> json) list \<Rightarrow> string \<Rightarrow> json \<Rightarrow> json" where
  "dict_get d k dflt = (case map_of d k of None \<Rightarrow> dflt | Some v \<Rightarrow> v)"

datatype http_method = POST | OPTIONS

text \<open>
  \<^verbatim>\<open>request.json\<close> either yields the parsed body or aborts the request (a body that is
  not JSON, or a content type that is not JSON).
\<close>

datatype json_body = NoJson | Json json

record request =
  rq_method :: http_method
  rq_json :: json_body

text \<open>
  The error channel of a handler: \<open>BadRequest\<close> when \<^verbatim>\<open>request.json\<close> aborts,
  \<open>AttributeError\<close> when the parsed body has no \<^verbatim>\<open>get\<close> method (anything but a dict).
\<close>

datatype handler_error = BadRequest | AttributeError

text \<open>
  A reply is what \<^verbatim>\<open>jsonify\<close> is given, with the HTTP code (200 when the handler
  returns no code of its own).
\<close>

record http_response =
  body :: "(string \<times> string) list"
  http_code :: nat

definition jsonify :: "(string \<times> string) list \<Rightarrow> nat \<Rightarrow> http_response" where
  "jsonify kvs c = \<lparr>body = kvs, http_code = c\<rparr>"

definition status_of :: "http_response \<Rightarrow> string option" where
  "status_of r = map_of (body r) ''status''"

text \<open>The two reads both handlers make: \<^verbatim>\<open>data.get('mode', 'classical')\<close> and
  \<^verbatim>\<open>data.get('attack', False)\<close>.\<close>

definition get_mode :: "(string \<times> json) list \<Rightarrow> json" where
  "get_mode data = dict_get data ''mode'' (JStr ''classical'')"

definition get_attack :: "(string \<times> json) list \<Rightarrow> json" where
  "get_attack data = dict_get data ''attack'' (JBool False)"

subsection \<open>server.py: process_transaction\<close>

text \<open>
  The handler's reply together with two locals of its quantum branch: \<^verbatim>\<open>qber\<close>
  (assigned in quantum mode only; the handler prints it and branches on the attack flag,
  it never compares it) and \<^verbatim>\<open>final_key\<close> (the AES key, drawn only after the attack
  check has been passed). The console narration and the values drawn only for
  it (\<^verbatim>\<open>raw_bits\<close>, \<^verbatim>\<open>nonce\<close>, the transaction id) do not reach the reply and are left
  out; \<open>fresh\<close> is the value \<^verbatim>\<open>secrets.token_hex(32)\<close> returns.
\<close>

record transaction_run =
  reply :: http_response
  qber_seen :: "rat option"
  final_key :: "string option"

definition QBER_NORMAL :: rat where
  "QBER_NORMAL = 2 / 100"

definition QBER_ATTACK :: rat where
  "QBER_ATTACK = 27 / 100"

text \<open>The limit the handler prints when it aborts (\<^verbatim>\<open>THRESHOLD EXCEEDED (Limit: 11%)\<close>).\<close>

definition QBER_LIMIT :: rat where
  "QBER_LIMIT = 11 / 100"

definition process_transaction_run :: "string \<Rightarrow> request \<Rightarrow> handler_error + transaction_run" where
  "process_transaction_run fresh rq =
    (if rq_method rq = OPTIONS then
       Inr \<lparr>reply = jsonify [(''status'', ''ok'')] 200, qber_seen = None, final_key = None\<rparr>
     else case rq_json rq of
       NoJson \<Rightarrow> Inl BadRequest
     | Json (JObj data) \<Rightarrow>
         (let mode = get_mode data;
              is_under_attack = get_attack data
          in if mode = JStr ''quantum'' then
               (if truthy is_under_attack then
                  Inr \<lparr>reply = jsonify [(''status'', ''defended''),
                                         (''message'', ''QBER Spike Detected. Keys Discarded.'')] 200,
                       qber_seen = Some QBER_ATTACK, final_key = None\<rparr>
                else
                  Inr \<lparr>reply = jsonify [(''status'', ''success''),
                                         (''message'', ''Secured by Quantum Shield.'')] 200,
                       qber_seen = Some QBER_NORMAL, final_key = Some fresh\<rparr>)
             else
               (if truthy is_under_attack then
                  Inr \<lparr>reply = jsonify [(''status'', ''hacked''),
                                         (''message'', ''TLS Broken. Data Stolen.'')] 200,
                       qber_seen = None, final_key = None\<rparr>
                else
                  Inr \<lparr>reply = jsonify [(''status'', ''success''),
                                         (''message'', ''Transfer Complete (Standard).'')] 200,
                       qber_seen = None, final_key = None\<rparr>))
     | Json _ \<Rightarrow> Inl AttributeError)"

definition process_transaction :: "string \<Rightarrow> request \<Rightarrow> handler_error + http_response" where
  "process_transaction fresh rq =
    (case process_transaction_run fresh rq of Inl e \<Rightarrow> Inl e | Inr t \<Rightarrow> Inr (reply t))"

subsection \<open>defense_server.py: transmit_intel\<close>

definition transmit_intel :: "request \<Rightarrow> handler_error + http_response" where
  "transmit_intel rq =
    (if rq_method rq = OPTIONS then Inr (jsonify [(''status'', ''ok'')] 200)
     else case rq_json rq of
       NoJson \<Rightarrow> Inl BadRequest
     | Json (JObj data) \<Rightarrow>
         (let mode = get_mode data;
              attack = get_attack data
          in if mode = JStr ''quantum'' then
               (if truthy attack then
                  Inr (jsonify [(''status'', ''defended''),
                                (''message'', ''HOSTILE INTERCEPT DETECTED. LINK CUT.'')] 200)
                else
                  Inr (jsonify [(''status'', ''success''),
                                (''message'', ''INTEL SECURED. UPLINK COMPLETE.'')] 200))
             else
               (if truthy attack then
                  Inr (jsonify [(''status'', ''hacked''),
                                (''message'', ''SIGNAL INTERCEPTED. INTEL LEAKED.'')] 200)
                else
                  Inr (jsonify [(''status'', ''success''),
                                (''message'', ''Radio Transmission Complete.'')] 200)))
     | Json _ \<Rightarrow> Inl AttributeError)"

section \<open>aqvh910_solution.py: one measured bit per run\<close>

text \<open>
  \<^verbatim>\<open>create_qrng_circuit\<close> builds \<^verbatim>\<open>QuantumCircuit(1, 1)\<close>, applies \<^verbatim>\<open>h(0)\<close> and
  \<^verbatim>\<open>measure(0, 0)\<close>: one qubit, one classical bit, two operations.
\<close>

datatype gate = Hadamard nat | Measure nat nat

record circuit =
  num_qubits :: nat
  num_clbits :: nat
  gates :: "gate list"

definition create_qrng_circuit :: circuit where
  "create_qrng_circuit = \<lparr>num_qubits = 1, num_clbits = 1, gates = [Hadamard 0, Measure 0 0]\<rparr>"

text \<open>
  The simulator is outside the repository and is a parameter: for a circuit, a number of
  shots and the index of the run it gives the list that
  \<^verbatim>\<open>simulator.run(qc, shots=s, memory=True).result().get_memory()\<close> returns. What the
  library promises of that list is \<open>memory_ok\<close>: one readout per shot, each a string with
  one character \<^verbatim>\<open>'0'\<close> or \<^verbatim>\<open>'1'\<close> per classical bit of the circuit (a circuit with a
  single classical register, as this one).
\<close>

type_synonym simulator = "circuit \<Rightarrow> nat \<Rightarrow> nat \<Rightarrow> string list"

definition memory_ok :: "circuit \<Rightarrow> nat \<Rightarrow> string list \<Rightarrow> bool" where
  "memory_ok qc shots m =
    (length m = shots \<and>
     (\<forall>r\<in>set m. length r = num_clbits qc \<and> set r \<subseteq> {CHR ''0'', CHR ''1''}))"

text \<open>
  Python values and exceptions as far as this script meets them: an \<^verbatim>\<open>int\<close> and a
  \<^verbatim>\<open>str\<close> are different values, and \<^verbatim>\<open>1 == "1"\<close> is false.
\<close>

datatype py_error = IndexError | ValueError

datatype py_value = PyInt int | PyStr string

text \<open>
  \<^verbatim>\<open>int(s)\<close> on a string, base ten: blanks around the number are dropped, one sign may
  lead, and the digits may be separated by single underscores; anything else raises
  \<^verbatim>\<open>ValueError\<close>. Strings are ASCII here (a readout is), so the blanks are the ASCII
  ones and the digits are \<^verbatim>\<open>0\<close> to \<^verbatim>\<open>9\<close>.
\<close>

definition is_space :: "char \<Rightarrow> bool" where
  "is_space c =
    (let k = (of_char c :: nat) in (9 \<le> k \<and> k \<le> 13) \<or> (28 \<le> k \<and> k \<le> 32))"

definition strip :: "string \<Rightarrow> string" where
  "strip s = rev (dropWhile is_space (rev (dropWhile is_space s)))"

definition digit_of :: "char \<Rightarrow> nat option" where
  "digit_of c =
    (let k = (of_char c :: nat) in if 48 \<le> k \<and> k \<le> 57 then Some (k - 48) else None)"

text \<open>The value of the digits read so far is \<open>acc\<close>; \<open>after_digit\<close> says that the
  character just read was a digit, which an underscore and the end of the string need.\<close>

fun digits_value :: "string \<Rightarrow> nat \<Rightarrow> bool \<Rightarrow> nat option" where
  "digits_value [] acc after_digit = (if after_digit then Some acc else None)"
| "digits_value (c # cs) acc after_digit =
     (if c = CHR ''_'' then
        (if after_digit \<and> cs \<noteq> [] then digits_value cs acc False else None)
      else case digit_of c of
        None \<Rightarrow> None
      | Some k \<Rightarrow> digits_value cs (10 * acc + k) True)"

definition py_int :: "string \<Rightarrow> py_error + int" where
  "py_int s =
    (let t = strip s;
         negative = (t \<noteq> [] \<and> hd t = CHR ''-'');
         signed = (t \<noteq> [] \<and> (hd t = CHR ''-'' \<or> hd t = CHR ''+''));
         digits = (if signed then tl t else t)
     in case digits_value digits 0 False of
          None \<Rightarrow> Inl ValueError
        | Some n \<Rightarrow> Inr (if negative then - int n else int n))"

text \<open>
  \<^verbatim>\<open>generate_true_random_bit(simulator, qc)\<close>: one run with \<^verbatim>\<open>shots=1\<close>, then
  \<^verbatim>\<open>int(memory[0])\<close>. What it returns is an \<^verbatim>\<open>int\<close>. \<open>k\<close> is the index of the run.
\<close>

definition generate_true_random_bit :: "simulator \<Rightarrow> circuit \<Rightarrow> nat \<Rightarrow> py_error + py_value" where
  "generate_true_random_bit sim qc k =
    (case sim qc 1 k of
       [] \<Rightarrow> Inl IndexError
     | m # _ \<Rightarrow> (case py_int m of Inl e \<Rightarrow> Inl e | Inr i \<Rightarrow> Inr (PyInt i)))"

text \<open>
  The comprehension of the main block,
  \<^verbatim>\<open>[generate_true_random_bit(simulator, qc) for _ in range(n)]\<close> with
  \<^verbatim>\<open>qc = create_qrng_circuit()\<close> (the script takes \<open>n = 5\<close>): \<open>n\<close> calls, the runs
  numbered from \<open>k\<close> on, the first exception ending it.
\<close>

fun random_bits_from :: "simulator \<Rightarrow> circuit \<Rightarrow> nat \<Rightarrow> nat \<Rightarrow> py_error + py_value list" where
  "random_bits_from sim qc k 0 = Inr []"
| "random_bits_from sim qc k (Suc n) =
     (case generate_true_random_bit sim qc k of
        Inl e \<Rightarrow> Inl e
      | Inr b \<Rightarrow>
          (case random_bits_from sim qc (Suc k) n of
             Inl e \<Rightarrow> Inl e
           | Inr bs \<Rightarrow> Inr (b # bs)))"

definition random_bits :: "simulator \<Rightarrow> nat \<Rightarrow> py_error + py_value list" where
  "random_bits sim n = random_bits_from sim create_qrng_circuit 0 n"

section \<open>The analysis core\<close>

text \<open>
  The test suite imports \<^verbatim>\<open>quantum_core\<close>, which is not among the sources. Its
  entropy analyser and its E91 simulator are modelled from the specification. Floats are
  modelled by exact numbers.
\<close>

text \<open>Modelled from the spec: the error taxonomy of the core (\<^verbatim>\<open>quantum_core\<close> is
  missing): an unreachable sampler, an invalid input, a failed concurrent update.\<close>

datatype core_error = BackendUnavailable | InvalidInput | AggregationError

subsection \<open>EntropyAnalyzer\<close>

text \<open>Modelled from the spec: OutcomeCounts, a mapping from outcome label to a
  non-negative occurrence count (\<^verbatim>\<open>quantum_core\<close> is missing).\<close>

type_synonym outcome_counts = "string \<rightharpoonup> nat"

text \<open>Modelled from the spec: the count an OutcomeCounts mapping gives an outcome label
  (\<^verbatim>\<open>quantum_core\<close> is missing); a label it does not hold counts zero.\<close>

definition count_of :: "outcome_counts \<Rightarrow> string \<Rightarrow> nat" where
  "count_of counts label = (case counts label of None \<Rightarrow> 0 | Some c \<Rightarrow> c)"

text \<open>Modelled from the spec: the total count of the two outcomes \<^verbatim>\<open>"0"\<close> and \<^verbatim>\<open>"1"\<close>
  of an OutcomeCounts mapping (\<^verbatim>\<open>quantum_core\<close> is missing).\<close>

definition total_count :: "outcome_counts \<Rightarrow> nat" where
  "total_count counts = count_of counts ''0'' + count_of counts ''1''"

text \<open>Modelled from the spec: one term \<open>p \<cdot> log2 p\<close> of the entropy sum of
  \<^verbatim>\<open>calculate_entropy\<close> (missing), with the convention \<open>0 \<cdot> log2 0 = 0\<close> written out.\<close>

definition plog2 :: "real \<Rightarrow> real" where
  "plog2 p = (if p = 0 then 0 else p * log 2 p)"

text \<open>Modelled from the spec: \<^verbatim>\<open>entropy(counts)\<close>, the missing
  \<^verbatim>\<open>QuantumRandomNumberGenerator.calculate_entropy\<close>: with \<open>p0\<close>, \<open>p1\<close> the counts
  normalised to sum 1 it is \<open>\<minus>(p0 \<cdot> log2 p0 + p1 \<cdot> log2 p1)\<close>, and it fails with
  \<open>InvalidInput\<close> when the total count is 0.\<close>

definition entropy :: "outcome_counts \<Rightarrow> core_error + real" where
  "entropy counts =
    (if total_count counts = 0 then Inl InvalidInput
     else
       (let p0 = real (count_of counts ''0'') / real (total_count counts);
            p1 = real (count_of counts ''1'') / real (total_count counts)
        in Inr (- (plog2 p0 + plog2 p1))))"

subsection \<open>E91Simulator\<close>

text \<open>Modelled from the spec: E91Round, one sifting attempt (\<^verbatim>\<open>quantum_core\<close> is
  missing): the basis each party chose and the outcome each measured.\<close>

record E91Round =
  alice_basis :: bool
  bob_basis :: bool
  alice_outcome :: bool
  bob_outcome :: bool

text \<open>Modelled from the spec: E91Result, the value a protocol run returns
  (\<^verbatim>\<open>quantum_core\<close> is missing); the shared key is a BitSequence, empty if the run is
  insecure, and the float \<open>qber\<close> is kept as an exact rational.\<close>

record E91Result =
  total_rounds :: nat
  sifted_key_length :: nat
  shared_key :: string
  qber :: rat
  secure :: bool

text \<open>Modelled from the spec: the ``matched'' flag of an E91Round (\<^verbatim>\<open>quantum_core\<close> is
  missing): the two bases are equal.\<close>

definition matched :: "E91Round \<Rightarrow> bool" where
  "matched r = (alice_basis r = bob_basis r)"

text \<open>Modelled from the spec: the security bound \<open>0.11\<close> of the missing
  \<^verbatim>\<open>E91Protocol.run_e91_protocol\<close>, as the named constant the design notes ask for.\<close>

definition QBER_THRESHOLD :: rat where
  "QBER_THRESHOLD = 11 / 100"

text \<open>Modelled from the spec: the MeasurementSource as the E91 simulator consumes it
  (missing; the spec treats it as a black box): given the eavesdropper setting, the round
  it samples at each index, or the error of an unreachable backend.\<close>

type_synonym e91_source = "bool \<Rightarrow> nat \<Rightarrow> core_error + E91Round"

text \<open>Modelled from the spec: the rounds of one run of the missing
  \<^verbatim>\<open>E91Protocol.run_e91_protocol\<close>: \<open>n\<close> draws from the source from index \<open>k\<close> on; an
  error of the source ends the run and propagates unchanged.\<close>

fun draw_rounds :: "(nat \<Rightarrow> core_error + E91Round) \<Rightarrow> nat \<Rightarrow> nat \<Rightarrow> core_error + E91Round list" where
  "draw_rounds src k 0 = Inr []"
| "draw_rounds src k (Suc n) =
     (case src k of
        Inl e \<Rightarrow> Inl e
      | Inr r \<Rightarrow>
          (case draw_rounds src (Suc k) n of
             Inl e \<Rightarrow> Inl e
           | Inr rs \<Rightarrow> Inr (r # rs)))"

text \<open>Modelled from the spec: a bit of the shared key as the character \<^verbatim>\<open>'0'\<close> or
  \<^verbatim>\<open>'1'\<close> of a BitSequence (\<^verbatim>\<open>quantum_core\<close> is missing).\<close>

definition bit_char :: "bool \<Rightarrow> char" where
  "bit_char b = (if b then CHR ''1'' else CHR ''0'')"

text \<open>Modelled from the spec: \<^verbatim>\<open>run(num_rounds, eavesdropper)\<close>, the missing
  \<^verbatim>\<open>E91Protocol.run_e91_protocol\<close>. A round whose bases match contributes one sifted
  bit; after all rounds \<open>qber = disagreements / sifted_key_length\<close> (0 if no sifted
  bits), \<open>secure = qber < 0.11\<close>, and the shared key is discarded (empty) when the run is
  insecure.\<close>

definition run_e91 :: "e91_source \<Rightarrow> nat \<Rightarrow> bool \<Rightarrow> core_error + E91Result" where
  "run_e91 src num_rounds eavesdropper =
    (case draw_rounds (src eavesdropper) 0 num_rounds of
       Inl e \<Rightarrow> Inl e
     | Inr rounds \<Rightarrow>
         (let sifted = filter matched rounds;
              disagreements = length (filter (\<lambda>r. alice_outcome r \<noteq> bob_outcome r) sifted);
              q = (if sifted = [] then 0
                   else rat_of_nat disagreements / rat_of_nat (length sifted));
              sec = (q < QBER_THRESHOLD)
          in Inr \<lparr>total_rounds = num_rounds,
                  sifted_key_length = length sifted,
                  shared_key = (if sec then map (\<lambda>r. bit_char (alice_outcome r)) sifted else []),
                  qber = q,
                  secure = sec\<rparr>))"

section \<open>Properties of the two handlers\<close>

lemma handler_defs:
  "jsonify kvs c = \<lparr>body = kvs, http_code = c\<rparr>"
  "status_of r = map_of (body r) ''status''"
  by (simp_all add: jsonify_def status_of_def)

lemma process_transaction_run_dict:
  "rq_method rq = POST \<Longrightarrow> rq_json rq = Json (JObj d) \<Longrightarrow>
   process_transaction_run fresh rq =
     (if get_mode d = JStr ''quantum'' then
        (if truthy (get_attack d) then
           Inr \<lparr>reply = jsonify [(''status'', ''defended''),
                                  (''message'', ''QBER Spike Detected. Keys Discarded.'')] 200,
                qber_seen = Some QBER_ATTACK, final_key = None\<rparr>
         else
           Inr \<lparr>reply = jsonify [(''status'', ''success''),
                                  (''message'', ''Secured by Quantum Shield.'')] 200,
                qber_seen = Some QBER_NORMAL, final_key = Some fresh\<rparr>)
      else
        (if truthy (get_attack d) then
           Inr \<lparr>reply = jsonify [(''status'', ''hacked''),
                                  (''message'', ''TLS Broken. Data Stolen.'')] 200,
                qber_seen = None, final_key = None\<rparr>
         else
           Inr \<lparr>reply = jsonify [(''status'', ''success''),
                                  (''message'', ''Transfer Complete (Standard).'')] 200,
                qber_seen = None, final_key = None\<rparr>))"
  by (simp add: process_transaction_run_def Let_def)

lemma process_transaction_run_Inl:
  "process_transaction_run fresh rq = Inl e \<Longrightarrow>
   rq_method rq = POST \<and> (\<forall>d. rq_json rq \<noteq> Json (JObj d))"
  by (cases "rq_method rq")
     (auto simp: process_transaction_run_def Let_def split: json_body.splits json.splits if_splits)

lemma transmit_intel_Inl:
  "transmit_intel rq = Inl e \<Longrightarrow>
   rq_method rq = POST \<and> (\<forall>d. rq_json rq \<noteq> Json (JObj d))"
  by (cases "rq_method rq")
     (auto simp: transmit_intel_def Let_def split: json_body.splits json.splits if_splits)

lemma transmit_intel_dict:
  "rq_method rq = POST \<Longrightarrow> rq_json rq = Json (JObj d) \<Longrightarrow>
   transmit_intel rq =
     (if get_mode d = JStr ''quantum'' then
        (if truthy (get_attack d) then
           Inr (jsonify [(''status'', ''defended''),
                         (''message'', ''HOSTILE INTERCEPT DETECTED. LINK CUT.'')] 200)
         else
           Inr (jsonify [(''status'', ''success''),
                         (''message'', ''INTEL SECURED. UPLINK COMPLETE.'')] 200))
      else
        (if truthy (get_attack d) then
           Inr (jsonify [(''status'', ''hacked''),
                         (''message'', ''SIGNAL INTERCEPTED. INTEL LEAKED.'')] 200)
         else
           Inr (jsonify [(''status'', ''success''),
                         (''message'', ''Radio Transmission Complete.'')] 200)))"
  by (simp add: transmit_intel_def Let_def)

lemma process_transaction_dict:
  "rq_method rq = POST \<Longrightarrow> rq_json rq = Json (JObj d) \<Longrightarrow>
   process_transaction fresh rq =
     Inr (jsonify
       (if get_mode d = JStr ''quantum'' then
          (if truthy (get_attack d)
           then [(''status'', ''defended''), (''message'', ''QBER Spike Detected. Keys Discarded.'')]
           else [(''status'', ''success''), (''message'', ''Secured by Quantum Shield.'')])
        else
          (if truthy (get_attack d)
           then [(''status'', ''hacked''), (''message'', ''TLS Broken. Data Stolen.'')]
           else [(''status'', ''success''), (''message'', ''Transfer Complete (Standard).'')])) 200)"
  by (simp add: process_transaction_def process_transaction_run_dict)

lemma process_transaction_status:
  "rq_method rq = POST \<Longrightarrow> rq_json rq = Json (JObj d) \<Longrightarrow>
   \<exists>r. process_transaction fresh rq = Inr r \<and> http_code r = 200 \<and>
       status_of r = Some (if truthy (get_attack d)
                           then (if get_mode d = JStr ''quantum'' then ''defended'' else ''hacked'')
                           else ''success'')"
  by (simp add: process_transaction_dict handler_defs)

lemma transmit_intel_status:
  "rq_method rq = POST \<Longrightarrow> rq_json rq = Json (JObj d) \<Longrightarrow>
   \<exists>r. transmit_intel rq = Inr r \<and> http_code r = 200 \<and>
       status_of r = Some (if truthy (get_attack d)
                           then (if get_mode d = JStr ''quantum'' then ''defended'' else ''hacked'')
                           else ''success'')"
  by (simp add: transmit_intel_dict handler_defs)

lemma process_transaction_Inl:
  "process_transaction fresh rq = Inl e \<Longrightarrow>
   rq_method rq = POST \<and> (\<forall>d. rq_json rq \<noteq> Json (JObj d))"
  using process_transaction_run_Inl [of fresh rq]
  by (auto simp: process_transaction_def split: sum.splits)

lemma options_replies:
  "rq_method rq = OPTIONS \<Longrightarrow> process_transaction fresh rq = Inr (jsonify [(''status'', ''ok'')] 200)"
  "rq_method rq = OPTIONS \<Longrightarrow> transmit_intel rq = Inr (jsonify [(''status'', ''ok'')] 200)"
  by (simp_all add: process_transaction_def process_transaction_run_def transmit_intel_def)

text \<open>
  Claim C6. An insecure verdict is a normal reply, never an error. Both handlers use the
  error channel only for a POST whose body is not a JSON object, that is before any
  protocol has run; every attacked run is answered with HTTP 200 and the structured status
  \<^verbatim>\<open>defended\<close> (quantum mode) or \<^verbatim>\<open>hacked\<close> (classical mode); and whenever the QBER seen
  by \<^verbatim>\<open>process_transaction\<close> is at or above the limit, the reply is \<^verbatim>\<open>defended\<close> with
  HTTP 200.
\<close>

theorem insecure_verdict_is_normal_reply:
  "(\<forall>e. process_transaction fresh rq = Inl e \<or> transmit_intel rq = Inl e \<longrightarrow>
        rq_method rq = POST \<and> (\<forall>d. rq_json rq \<noteq> Json (JObj d))) \<and>
   (\<forall>d. rq_method rq = POST \<and> rq_json rq = Json (JObj d) \<and> truthy (get_attack d) \<longrightarrow>
        (\<exists>r s. process_transaction fresh rq = Inr r \<and> transmit_intel rq = Inr s \<and>
           http_code r = 200 \<and> http_code s = 200 \<and>
           status_of r = Some (if get_mode d = JStr ''quantum'' then ''defended'' else ''hacked'') \<and>
           status_of s = status_of r)) \<and>
   (\<forall>t q. process_transaction_run fresh rq = Inr t \<and> qber_seen t = Some q \<and> QBER_LIMIT \<le> q \<longrightarrow>
        status_of (reply t) = Some ''defended'' \<and> http_code (reply t) = 200)"
proof -
  have errs: "\<forall>e. process_transaction fresh rq = Inl e \<or> transmit_intel rq = Inl e \<longrightarrow>
        rq_method rq = POST \<and> (\<forall>d. rq_json rq \<noteq> Json (JObj d))"
    using process_transaction_Inl [of fresh rq] transmit_intel_Inl [of rq] by blast
  have attacked: "\<forall>d. rq_method rq = POST \<and> rq_json rq = Json (JObj d) \<and> truthy (get_attack d) \<longrightarrow>
        (\<exists>r s. process_transaction fresh rq = Inr r \<and> transmit_intel rq = Inr s \<and>
           http_code r = 200 \<and> http_code s = 200 \<and>
           status_of r = Some (if get_mode d = JStr ''quantum'' then ''defended'' else ''hacked'') \<and>
           status_of s = status_of r)"
    by (simp add: process_transaction_dict transmit_intel_dict handler_defs)
  have "\<not> QBER_LIMIT \<le> QBER_NORMAL"
    by (simp add: QBER_LIMIT_def QBER_NORMAL_def)
  then have spike: "\<forall>t q. process_transaction_run fresh rq = Inr t \<and> qber_seen t = Some q \<and>
        QBER_LIMIT \<le> q \<longrightarrow>
        status_of (reply t) = Some ''defended'' \<and> http_code (reply t) = 200"
    by (cases "rq_method rq")
       (auto simp: process_transaction_run_def Let_def handler_defs
             split: json_body.splits json.splits if_splits)
  from errs attacked spike show ?thesis by blast
qed

theorem insecure_verdict_is_normal_reply_witness:
  "\<exists>r s. process_transaction ''00ff''
            \<lparr>rq_method = POST, rq_json = Json (JObj [(''mode'', JStr ''quantum''), (''attack'', JNum 1)])\<rparr> = Inr r \<and>
         transmit_intel
            \<lparr>rq_method = POST, rq_json = Json (JObj [(''mode'', JStr ''quantum''), (''attack'', JNum 1)])\<rparr> = Inr s \<and>
         http_code r = 200 \<and> http_code s = 200 \<and>
         status_of r = Some ''defended'' \<and> status_of s = Some ''defended''"
  using insecure_verdict_is_normal_reply [of "''00ff''"
          "\<lparr>rq_method = POST, rq_json = Json (JObj [(''mode'', JStr ''quantum''), (''attack'', JNum 1)])\<rparr>"]
  by (auto simp: get_mode_def get_attack_def dict_get_def)

text \<open>
  Claim C10, as amended. For POST requests whose JSON body is an object, the status of
  both endpoints depends only on whether mode is the string \<^verbatim>\<open>quantum\<close> and on the truth
  value of attack: two such requests that agree on these receive the same status,
  \<^verbatim>\<open>defended\<close> when mode is \<^verbatim>\<open>quantum\<close> and attack is true, \<^verbatim>\<open>hacked\<close> when mode is not
  \<^verbatim>\<open>quantum\<close> and attack is true, \<^verbatim>\<open>success\<close> otherwise, always with HTTP 200. An
  OPTIONS request is answered with status \<^verbatim>\<open>ok\<close> and HTTP 200 whatever its body.
\<close>

theorem status_depends_on_mode_and_attack:
  assumes "rq_method rq = POST" and "rq_json rq = Json (JObj d)"
    and "rq_method rq' = POST" and "rq_json rq' = Json (JObj d')"
    and "(get_mode d = JStr ''quantum'') = (get_mode d' = JStr ''quantum'')"
    and "truthy (get_attack d) = truthy (get_attack d')"
  shows "\<exists>r r' s s'.
           process_transaction fresh rq = Inr r \<and> process_transaction fresh' rq' = Inr r' \<and>
           transmit_intel rq = Inr s \<and> transmit_intel rq' = Inr s' \<and>
           status_of r = status_of r' \<and> status_of s = status_of s' \<and> status_of s = status_of r \<and>
           status_of r = Some (if truthy (get_attack d)
                               then (if get_mode d = JStr ''quantum'' then ''defended'' else ''hacked'')
                               else ''success'') \<and>
           http_code r = 200 \<and> http_code r' = 200 \<and> http_code s = 200 \<and> http_code s' = 200 \<and>
           (\<forall>p. rq_method p = OPTIONS \<longrightarrow>
              process_transaction fresh p = Inr (jsonify [(''status'', ''ok'')] 200) \<and>
              transmit_intel p = Inr (jsonify [(''status'', ''ok'')] 200))"
  using assms
  by (simp add: process_transaction_dict transmit_intel_dict handler_defs options_replies)

theorem status_depends_on_mode_and_attack_witness:
  "\<exists>r r' s s'.
     process_transaction ''aa''
       \<lparr>rq_method = POST, rq_json = Json (JObj [(''mode'', JStr ''quantum''), (''attack'', JBool True)])\<rparr> = Inr r \<and>
     process_transaction ''bb''
       \<lparr>rq_method = POST,
        rq_json = Json (JObj [(''amount'', JNum 5), (''attack'', JStr ''yes''), (''mode'', JStr ''quantum'')])\<rparr> = Inr r' \<and>
     transmit_intel
       \<lparr>rq_method = POST, rq_json = Json (JObj [(''mode'', JStr ''quantum''), (''attack'', JBool True)])\<rparr> = Inr s \<and>
     transmit_intel
       \<lparr>rq_method = POST,
        rq_json = Json (JObj [(''amount'', JNum 5), (''attack'', JStr ''yes''), (''mode'', JStr ''quantum'')])\<rparr> = Inr s' \<and>
     status_of r = status_of r' \<and> status_of s = status_of s' \<and> status_of r = Some ''defended''"
  using status_depends_on_mode_and_attack [of
      "\<lparr>rq_method = POST, rq_json = Json (JObj [(''mode'', JStr ''quantum''), (''attack'', JBool True)])\<rparr>"
      "[(''mode'', JStr ''quantum''), (''attack'', JBool True)]"
      "\<lparr>rq_method = POST,
        rq_json = Json (JObj [(''amount'', JNum 5), (''attack'', JStr ''yes''), (''mode'', JStr ''quantum'')])\<rparr>"
      "[(''amount'', JNum 5), (''attack'', JStr ''yes''), (''mode'', JStr ''quantum'')]"
      "''aa''" "''bb''"]
  by (auto simp: get_mode_def get_attack_def dict_get_def)

text \<open>
  Claim C10 as stated fails on the method guard: an OPTIONS request whose body has mode
  \<^verbatim>\<open>quantum\<close> and a true attack field is answered \<^verbatim>\<open>ok\<close>, while the POST request with
  the same body is answered \<^verbatim>\<open>defended\<close>.
\<close>

theorem status_ignores_method_counterexample:
  "process_transaction ''aa''
     \<lparr>rq_method = OPTIONS, rq_json = Json (JObj [(''mode'', JStr ''quantum''), (''attack'', JBool True)])\<rparr>
     = Inr (jsonify [(''status'', ''ok'')] 200) \<and>
   process_transaction ''aa''
     \<lparr>rq_method = POST, rq_json = Json (JObj [(''mode'', JStr ''quantum''), (''attack'', JBool True)])\<rparr>
     = Inr (jsonify [(''status'', ''defended''), (''message'', ''QBER Spike Detected. Keys Discarded.'')] 200) \<and>
   transmit_intel
     \<lparr>rq_method = OPTIONS, rq_json = Json (JObj [(''mode'', JStr ''quantum''), (''attack'', JBool True)])\<rparr>
     = Inr (jsonify [(''status'', ''ok'')] 200) \<and>
   transmit_intel
     \<lparr>rq_method = POST, rq_json = Json (JObj [(''mode'', JStr ''quantum''), (''attack'', JBool True)])\<rparr>
     = Inr (jsonify [(''status'', ''defended''), (''message'', ''HOSTILE INTERCEPT DETECTED. LINK CUT.'')] 200)"
  by (simp add: process_transaction_def process_transaction_run_def transmit_intel_def
      get_mode_def get_attack_def dict_get_def)

section \<open>Properties of the bit generator\<close>

lemma py_int_readout: "py_int ''0'' = Inr 0" "py_int ''1'' = Inr 1"
  by (simp_all add: py_int_def strip_def is_space_def digit_of_def)

text \<open>The library's promise, for the one-bit circuit at one shot, leaves two memories.\<close>

lemma one_bit_memory:
  assumes "memory_ok create_qrng_circuit 1 m"
  shows "m = [''0''] \<or> m = [''1'']"
proof -
  from assms obtain r where m: "m = [r]"
    by (auto simp: memory_ok_def length_Suc_conv)
  with assms have "length r = 1" and r: "set r \<subseteq> {CHR ''0'', CHR ''1''}"
    by (simp_all add: memory_ok_def create_qrng_circuit_def)
  then obtain c where "r = [c]"
    by (auto simp: length_Suc_conv)
  with r m show ?thesis by auto
qed

lemma generate_true_random_bit_readout:
  assumes "memory_ok create_qrng_circuit 1 (sim create_qrng_circuit 1 k)"
  shows "generate_true_random_bit sim create_qrng_circuit k = Inr (PyInt 0) \<or>
         generate_true_random_bit sim create_qrng_circuit k = Inr (PyInt 1)"
  using one_bit_memory [OF assms]
  by (auto simp: generate_true_random_bit_def py_int_readout)

lemma random_bits_from_length:
  "random_bits_from sim qc k n = Inr bits \<Longrightarrow> length bits = n"
  by (induction n arbitrary: k bits) (auto split: sum.splits)

lemma random_bits_from_ok:
  "(\<And>i. i < n \<Longrightarrow> memory_ok create_qrng_circuit 1 (sim create_qrng_circuit 1 (k + i))) \<Longrightarrow>
   \<exists>bits. random_bits_from sim create_qrng_circuit k n = Inr bits \<and> length bits = n \<and>
       set bits \<subseteq> {PyInt 0, PyInt 1}"
proof (induction n arbitrary: k)
  case 0
  then show ?case by simp
next
  case (Suc n)
  have "memory_ok create_qrng_circuit 1 (sim create_qrng_circuit 1 k)"
    using Suc.prems [of 0] by simp
  then have first: "generate_true_random_bit sim create_qrng_circuit k = Inr (PyInt 0) \<or>
      generate_true_random_bit sim create_qrng_circuit k = Inr (PyInt 1)"
    by (rule generate_true_random_bit_readout)
  have "\<And>i. i < n \<Longrightarrow> memory_ok create_qrng_circuit 1 (sim create_qrng_circuit 1 (Suc k + i))"
    using Suc.prems [of "Suc _"] by simp
  then obtain bs where "random_bits_from sim create_qrng_circuit (Suc k) n = Inr bs"
      "length bs = n" "set bs \<subseteq> {PyInt 0, PyInt 1}"
    using Suc.IH [of "Suc k"] by blast
  with first show ?case by auto
qed

text \<open>
  Claim C4, as amended. The bit sequence the repository delivers is the script's
  comprehension over \<^verbatim>\<open>generate_true_random_bit\<close> on the circuit of
  \<^verbatim>\<open>create_qrng_circuit\<close> (the script takes \<open>n = 5\<close>). For every \<open>n\<close>, whatever it
  returns has length exactly \<open>n\<close>; and when every run of the simulator keeps the library's
  promise (one readout per shot, one character \<^verbatim>\<open>'0'\<close> or \<^verbatim>\<open>'1'\<close> per classical bit),
  it does return, and every element is the int 0 or the int 1: the readout \<^verbatim>\<open>"0"\<close> or
  \<^verbatim>\<open>"1"\<close> converted by \<^verbatim>\<open>int\<close>, not the string.
\<close>

theorem random_bits_length_and_range:
  "(\<forall>bits. random_bits sim n = Inr bits \<longrightarrow> length bits = n) \<and>
   ((\<forall>k<n. memory_ok create_qrng_circuit 1 (sim create_qrng_circuit 1 k)) \<longrightarrow>
      (\<exists>bits. random_bits sim n = Inr bits \<and> length bits = n \<and>
         set bits \<subseteq> {PyInt 0, PyInt 1}))"
  using random_bits_from_ok [of n sim 0] random_bits_from_length [of sim create_qrng_circuit 0 n]
  by (simp add: random_bits_def)

theorem random_bits_length_and_range_witness:
  "\<exists>bits. random_bits (\<lambda>qc shots k. replicate shots (replicate (num_clbits qc)
               (if k = 1 \<or> k = 4 then CHR ''1'' else CHR ''0''))) 5 = Inr bits \<and>
       length bits = 5 \<and> set bits \<subseteq> {PyInt 0, PyInt 1}"
proof -
  let ?sim = "\<lambda>qc shots k. replicate shots (replicate (num_clbits qc)
               (if k = 1 \<or> k = (4::nat) then CHR ''1'' else CHR ''0''))"
  have "\<forall>k<5. memory_ok create_qrng_circuit 1 (?sim create_qrng_circuit 1 k)"
    by (simp add: memory_ok_def create_qrng_circuit_def)
  with random_bits_length_and_range [of ?sim 5] show ?thesis
    by blast
qed

text \<open>
  Claim C4 as stated fails on the type of the elements: on the readout \<^verbatim>\<open>'1'\<close> the
  one-element sequence holds the int 1, which is neither the string \<^verbatim>\<open>"0"\<close> nor the
  string \<^verbatim>\<open>"1"\<close>.
\<close>

theorem random_bits_are_ints_counterexample:
  "random_bits (\<lambda>qc shots k. [''1'']) 1 = Inr [PyInt 1] \<and>
   PyInt 1 \<notin> {PyStr ''0'', PyStr ''1''}"
  by (simp add: random_bits_def generate_true_random_bit_def py_int_readout)

section \<open>Properties of the entropy analyser\<close>

lemma plog2_nonpos: "0 \<le> p \<Longrightarrow> p \<le> 1 \<Longrightarrow> plog2 p \<le> 0"
proof -
  assume p: "0 \<le> p" "p \<le> 1"
  show ?thesis
  proof (cases "p = 0")
    case True
    then show ?thesis by (simp add: plog2_def)
  next
    case False
    with p have "0 < p" by simp
    with p have "log 2 p \<le> 0" by simp
    with \<open>0 < p\<close> have "p * log 2 p \<le> 0"
      by (simp add: mult_le_0_iff)
    with False show ?thesis by (simp add: plog2_def)
  qed
qed

lemma plog2_lower: "0 \<le> p \<Longrightarrow> - plog2 p \<le> (1 / 2 - p) / ln 2 + p"
proof -
  assume p: "0 \<le> p"
  have ln2: "0 < ln (2::real)" by simp
  show ?thesis
  proof (cases "p = 0")
    case True
    with ln2 show ?thesis by (simp add: plog2_def)
  next
    case False
    with p have pos: "0 < p" by simp
    then have "ln (1 / (2 * p)) \<le> 1 / (2 * p) - 1"
      by (intro ln_le_minus_one) simp
    moreover have "ln (1 / (2 * p)) = - ln 2 - ln p"
      using pos by (simp add: ln_div ln_mult)
    ultimately have "- ln 2 - ln p \<le> 1 / (2 * p) - 1" by simp
    then have "p * (- ln 2 - ln p) \<le> p * (1 / (2 * p) - 1)"
      using pos by (intro mult_left_mono) simp_all
    moreover have "p * (1 / (2 * p) - 1) = 1 / 2 - p"
      using pos by (simp add: field_simps)
    ultimately have "- (p * ln p) \<le> 1 / 2 - p + p * ln 2"
      by (simp add: algebra_simps)
    then have "- (p * ln p) / ln 2 \<le> (1 / 2 - p + p * ln 2) / ln 2"
      using ln2 by (intro divide_right_mono) simp_all
    moreover have "(1 / 2 - p + p * ln 2) / ln 2 = (1 / 2 - p) / ln 2 + p"
      using ln2 by (simp add: field_simps)
    moreover have "plog2 p = p * ln p / ln 2"
      using False by (simp add: plog2_def log_def)
    ultimately show ?thesis by simp
  qed
qed

lemma binary_entropy_bounds:
  assumes "0 \<le> p0" "0 \<le> p1" "p0 + p1 = 1"
  shows "0 \<le> - (plog2 p0 + plog2 p1)" and "- (plog2 p0 + plog2 p1) \<le> 1"
proof -
  from assms have "p0 \<le> 1" "p1 \<le> 1" by simp_all
  with assms have "plog2 p0 \<le> 0" "plog2 p1 \<le> 0"
    by (simp_all add: plog2_nonpos)
  then show "0 \<le> - (plog2 p0 + plog2 p1)" by simp
  have "- plog2 p0 - plog2 p1 \<le> ((1 / 2 - p0) / ln 2 + p0) + ((1 / 2 - p1) / ln 2 + p1)"
    using plog2_lower [OF assms(1)] plog2_lower [OF assms(2)] by simp
  also have "\<dots> = (1 - (p0 + p1)) / ln 2 + (p0 + p1)"
    by (simp add: field_simps)
  also have "\<dots> = 1" using assms(3) by simp
  finally show "- (plog2 p0 + plog2 p1) \<le> 1" by simp
qed

lemma entropy_value:
  "0 < total_count counts \<Longrightarrow>
   entropy counts =
     Inr (- (plog2 (real (count_of counts ''0'') / real (total_count counts)) +
             plog2 (real (count_of counts ''1'') / real (total_count counts))))"
  by (simp add: entropy_def Let_def)

lemma normalised_counts:
  assumes "0 < total_count counts"
  shows "0 \<le> real (count_of counts ''0'') / real (total_count counts)"
    and "0 \<le> real (count_of counts ''1'') / real (total_count counts)"
    and "real (count_of counts ''0'') / real (total_count counts) +
         real (count_of counts ''1'') / real (total_count counts) = 1"
proof -
  show "0 \<le> real (count_of counts ''0'') / real (total_count counts)"
    and "0 \<le> real (count_of counts ''1'') / real (total_count counts)"
    by simp_all
  have "real (count_of counts ''0'') + real (count_of counts ''1'') = real (total_count counts)"
    by (simp add: total_count_def)
  with assms show "real (count_of counts ''0'') / real (total_count counts) +
         real (count_of counts ''1'') / real (total_count counts) = 1"
    by (simp add: add_divide_distrib [symmetric])
qed

lemma plog2_values: "plog2 0 = 0" "plog2 1 = 0" "plog2 (1 / 2) = - 1 / 2"
proof -
  show "plog2 0 = 0" "plog2 1 = 0" by (simp_all add: plog2_def)
  have "log 2 (1 / 2) = - 1"
    by (simp add: log_divide)
  then show "plog2 (1 / 2) = - 1 / 2" by (simp add: plog2_def)
qed

text \<open>
  Claim C3. \<^verbatim>\<open>entropy(counts)\<close> is the Shannon formula
  \<open>\<minus>(p0 \<cdot> log2 p0 + p1 \<cdot> log2 p1)\<close> on the counts normalised to sum 1 (a term with
  \<open>p = 0\<close> is 0); the entropy of \<open>{"0": n, "1": 0}\<close> is 0 for every \<open>n > 0\<close>, and the
  entropy of \<open>{"0": n/2, "1": n/2}\<close> is exactly 1 for every even \<open>n > 0\<close>.
\<close>

theorem entropy_shannon_formula:
  "(0 < total_count counts \<longrightarrow>
      entropy counts =
        Inr (- (real (count_of counts ''0'') / real (total_count counts) *
                  log 2 (real (count_of counts ''0'') / real (total_count counts)) +
                real (count_of counts ''1'') / real (total_count counts) *
                  log 2 (real (count_of counts ''1'') / real (total_count counts))))) \<and>
   (0 < n \<longrightarrow> entropy [''0'' \<mapsto> n, ''1'' \<mapsto> 0] = Inr 0) \<and>
   (0 < n \<and> even n \<longrightarrow> entropy [''0'' \<mapsto> n div 2, ''1'' \<mapsto> n div 2] = Inr 1)"
proof -
  have formula: "entropy counts =
        Inr (- (real (count_of counts ''0'') / real (total_count counts) *
                  log 2 (real (count_of counts ''0'') / real (total_count counts)) +
                real (count_of counts ''1'') / real (total_count counts) *
                  log 2 (real (count_of counts ''1'') / real (total_count counts))))"
    if "0 < total_count counts"
    using that by (simp add: entropy_value plog2_def)
  have single: "entropy [''0'' \<mapsto> n, ''1'' \<mapsto> 0] = Inr 0" if "0 < n"
    using that by (simp add: entropy_def total_count_def count_of_def plog2_values)
  have balanced: "entropy [''0'' \<mapsto> n div 2, ''1'' \<mapsto> n div 2] = Inr 1" if "0 < n" "even n"
  proof -
    from that obtain m where n: "n = 2 * m" and m: "0 < m" by (auto elim: evenE)
    then have "real m / (real m + real m) = 1 / 2"
      by (simp add: field_simps)
    with n m show ?thesis
      by (simp add: entropy_def total_count_def count_of_def plog2_values)
  qed
  from formula single balanced show ?thesis by blast
qed

theorem entropy_shannon_formula_witness:
  "entropy [''0'' \<mapsto> 1024, ''1'' \<mapsto> 0] = Inr 0 \<and>
   entropy [''0'' \<mapsto> 512, ''1'' \<mapsto> 512] = Inr 1"
  using entropy_shannon_formula [of "[''0'' \<mapsto> 1024, ''1'' \<mapsto> 0]" 1024]
    entropy_shannon_formula [of "[''0'' \<mapsto> 512, ''1'' \<mapsto> 512]" 1024]
  by simp


text \<open>
  Claim C9. \<^verbatim>\<open>entropy(counts)\<close> is defined for exactly the counts whose total is positive:
  for a positive total it returns a value in \<open>[0, 1]\<close>; it fails with \<open>InvalidInput\<close> if
  and only if the total is 0, and it fails in no other way.
\<close>

theorem entropy_defined_iff_total_positive:
  "(0 < total_count counts \<longrightarrow> (\<exists>h. entropy counts = Inr h \<and> 0 \<le> h \<and> h \<le> 1)) \<and>
   ((entropy counts = Inl InvalidInput) = (total_count counts = 0)) \<and>
   (\<forall>e. entropy counts = Inl e \<longrightarrow> e = InvalidInput)"
proof -
  have "\<exists>h. entropy counts = Inr h \<and> 0 \<le> h \<and> h \<le> 1" if pos: "0 < total_count counts"
    using binary_entropy_bounds [OF normalised_counts [OF pos]] entropy_value [OF pos]
    by simp
  moreover have "(entropy counts = Inl InvalidInput) = (total_count counts = 0)"
    by (simp add: entropy_def Let_def)
  moreover have "\<forall>e. entropy counts = Inl e \<longrightarrow> e = InvalidInput"
    by (simp add: entropy_def Let_def)
  ultimately show ?thesis by blast
qed

theorem entropy_defined_iff_total_positive_witness:
  "(\<exists>h. entropy [''0'' \<mapsto> 3, ''1'' \<mapsto> 1] = Inr h \<and> 0 \<le> h \<and> h \<le> 1) \<and>
   entropy [''0'' \<mapsto> 0, ''1'' \<mapsto> 0] = Inl InvalidInput \<and> entropy Map.empty = Inl InvalidInput"
  using entropy_defined_iff_total_positive [of "[''0'' \<mapsto> 3, ''1'' \<mapsto> 1]"]
    entropy_defined_iff_total_positive [of "[''0'' \<mapsto> 0, ''1'' \<mapsto> 0]"]
    entropy_defined_iff_total_positive [of "Map.empty"]
  by (simp add: total_count_def count_of_def)

section \<open>Properties of the E91 simulator\<close>

lemma draw_rounds_length:
  "draw_rounds src k n = Inr rs \<Longrightarrow> length rs = n"
  by (induction n arbitrary: k rs) (auto split: sum.splits)

lemma draw_rounds_available:
  "(\<And>i. i < n \<Longrightarrow> \<exists>r. src (k + i) = Inr r) \<Longrightarrow> \<exists>rs. draw_rounds src k n = Inr rs"
proof (induction n arbitrary: k)
  case 0
  then show ?case by simp
next
  case (Suc n)
  obtain r where r: "src k = Inr r"
    using Suc.prems [of 0] by auto
  have "\<And>i. i < n \<Longrightarrow> \<exists>r. src (Suc k + i) = Inr r"
    using Suc.prems [of "Suc _"] by simp
  then obtain rs where "draw_rounds src (Suc k) n = Inr rs"
    using Suc.IH [of "Suc k"] by blast
  with r show ?case by simp
qed

lemma run_e91_returns:
  assumes "\<forall>i<num_rounds. \<exists>r. src eavesdropper i = Inr r"
  shows "\<exists>res. run_e91 src num_rounds eavesdropper = Inr res"
proof -
  obtain rs where "draw_rounds (src eavesdropper) 0 num_rounds = Inr rs"
    using draw_rounds_available [of num_rounds "src eavesdropper" 0] assms by auto
  then show ?thesis
    by (simp add: run_e91_def Let_def)
qed

lemma qber_ratio_bounds:
  fixes d s :: nat
  assumes "d \<le> s"
  shows "0 \<le> (if s = 0 then 0 else rat_of_nat d / rat_of_nat s)"
    and "(if s = 0 then 0 else rat_of_nat d / rat_of_nat s) \<le> 1"
  using assms by (simp_all add: divide_le_eq_1)

lemma run_e91_invariants:
  assumes "run_e91 src num_rounds eavesdropper = Inr res"
  shows "total_rounds res = num_rounds \<and> sifted_key_length res \<le> total_rounds res \<and>
         0 \<le> qber res \<and> qber res \<le> 1"
proof -
  from assms obtain rounds where
    rounds: "draw_rounds (src eavesdropper) 0 num_rounds = Inr rounds"
    by (auto simp: run_e91_def split: sum.splits)
  define sifted where "sifted = filter matched rounds"
  define d where "d = length (filter (\<lambda>r. alice_outcome r \<noteq> bob_outcome r) sifted)"
  have len: "length rounds = num_rounds"
    using rounds by (rule draw_rounds_length)
  have sift: "length sifted \<le> num_rounds"
    unfolding sifted_def using len length_filter_le [of matched rounds] by simp
  have d_le: "d \<le> length sifted"
    unfolding d_def by (rule length_filter_le)
  have fields: "total_rounds res = num_rounds" "sifted_key_length res = length sifted"
    "qber res = (if length sifted = 0 then 0 else rat_of_nat d / rat_of_nat (length sifted))"
    using assms rounds by (auto simp: run_e91_def Let_def sifted_def d_def)
  show ?thesis
    using fields sift qber_ratio_bounds [OF d_le] by simp
qed

text \<open>
  Claim C8. Every E91Result a run returns satisfies \<open>sifted_key_length \<le> total_rounds\<close>
  (with \<open>total_rounds\<close> the requested number of rounds) and \<open>0 \<le> qber \<le> 1\<close>, for every
  number of rounds and either eavesdropper setting; and a run returns a result whenever
  the measurement source delivers its rounds.
\<close>

theorem e91_result_invariants:
  "(\<forall>res. run_e91 src num_rounds eavesdropper = Inr res \<longrightarrow>
      total_rounds res = num_rounds \<and> sifted_key_length res \<le> total_rounds res \<and>
      0 \<le> qber res \<and> qber res \<le> 1) \<and>
   ((\<forall>i<num_rounds. \<exists>r. src eavesdropper i = Inr r) \<longrightarrow>
      (\<exists>res. run_e91 src num_rounds eavesdropper = Inr res))"
  using run_e91_invariants [of src num_rounds eavesdropper]
    run_e91_returns [of num_rounds src eavesdropper]
  by blast

theorem e91_result_invariants_witness:
  "\<exists>res. run_e91 (\<lambda>eve i. Inr \<lparr>alice_basis = even i, bob_basis = True,
                 alice_outcome = True, bob_outcome = (i \<noteq> 0)\<rparr>) 4 True = Inr res \<and>
     total_rounds res = 4 \<and> sifted_key_length res = 2 \<and> sifted_key_length res \<le> total_rounds res \<and>
     qber res = 1 / 2 \<and> 0 \<le> qber res \<and> qber res \<le> 1"
proof -
  have run: "run_e91 (\<lambda>eve i. Inr \<lparr>alice_basis = even i, bob_basis = True,
                 alice_outcome = True, bob_outcome = (i \<noteq> 0)\<rparr>) 4 True =
      Inr \<lparr>total_rounds = 4, sifted_key_length = 2, shared_key = [], qber = 1 / 2, secure = False\<rparr>"
    by code_simp
  from e91_result_invariants [of "\<lambda>eve i. Inr \<lparr>alice_basis = even i, bob_basis = True,
                 alice_outcome = True, bob_outcome = (i \<noteq> 0)\<rparr>" 4 True] run
  show ?thesis by simp
qed

text \<open>
  The verdict follows the sampled outcomes and nothing else: a run of 30 rounds with the
  eavesdropper setting on, in which every basis pair matches and the outcomes never
  disagree, has \<open>qber = 0\<close>, is declared secure and keeps its 30-bit key. That an
  eavesdropped run is insecure is a statement about how often the source makes the
  outcomes disagree, which the source as a parameter does not carry.
\<close>

lemma eavesdropped_run_can_be_secure:
  "run_e91 (\<lambda>eve i. Inr \<lparr>alice_basis = True, bob_basis = True,
                 alice_outcome = even i, bob_outcome = even i\<rparr>) 30 True =
     Inr \<lparr>total_rounds = 30, sifted_key_length = 30,
          shared_key = ''101010101010101010101010101010'', qber = 0, secure = True\<rparr>"
  by code_simp

end
